theory Spec2Isabelle
  imports Complex_Main "HOL-Library.Sublist" "HOL-Library.Monad_Syntax"
begin

section \<open>Strings and JavaScript values\<close>

text \<open>
  A JavaScript string is written as a \<^typ>\<open>string\<close>: the bytes of its UTF-8 encoding (a
  well-formed text, without unpaired surrogates). The characters the code looks for, the
  backtick, the line break and the word characters, are ASCII, and an ASCII byte of a
  UTF-8 text is always a character of its own. A JavaScript number is written as a
  \<^typ>\<open>real\<close>; an optional property or parameter (\<^verbatim>\<open>undefined\<close> when left out) is an
  \<^typ>\<open>'a option\<close>.
\<close>

definition isWordChar :: "char \<Rightarrow> bool" where
  \<comment> \<open>the regular expression class \<^verbatim>\<open>\w\<close>\<close>
  "isWordChar c =
     (c \<in> set ''ABCDEFGHIJKLMNOPQRSTUVWXYZabcdefghijklmnopqrstuvwxyz0123456789_'')"

definition whiteSpace :: "string list" where
  \<comment> \<open>the white space and line terminators that \<^verbatim>\<open>String.prototype.trim\<close> strips, each
      in UTF-8: TAB, LF, VT, FF, CR, SP, U+00A0, U+1680, U+2000 to U+200A, U+2028,
      U+2029, U+202F, U+205F, U+3000 and U+FEFF\<close>
  "whiteSpace =
     [[CHR 0x09], [CHR 0x0A], [CHR 0x0B], [CHR 0x0C], [CHR 0x0D], [CHR 0x20],
      [CHR 0xC2, CHR 0xA0], [CHR 0xE1, CHR 0x9A, CHR 0x80],
      [CHR 0xE2, CHR 0x80, CHR 0x80], [CHR 0xE2, CHR 0x80, CHR 0x81],
      [CHR 0xE2, CHR 0x80, CHR 0x82], [CHR 0xE2, CHR 0x80, CHR 0x83],
      [CHR 0xE2, CHR 0x80, CHR 0x84], [CHR 0xE2, CHR 0x80, CHR 0x85],
      [CHR 0xE2, CHR 0x80, CHR 0x86], [CHR 0xE2, CHR 0x80, CHR 0x87],
      [CHR 0xE2, CHR 0x80, CHR 0x88], [CHR 0xE2, CHR 0x80, CHR 0x89],
      [CHR 0xE2, CHR 0x80, CHR 0x8A], [CHR 0xE2, CHR 0x80, CHR 0xA8],
      [CHR 0xE2, CHR 0x80, CHR 0xA9], [CHR 0xE2, CHR 0x80, CHR 0xAF],
      [CHR 0xE2, CHR 0x81, CHR 0x9F], [CHR 0xE3, CHR 0x80, CHR 0x80],
      [CHR 0xEF, CHR 0xBB, CHR 0xBF]]"

lemma find_prefix_shorter:
  "find (\<lambda>p. p \<noteq> [] \<and> prefix p s) ws = Some p \<Longrightarrow> length (drop (length p) s) < length s"
  by (auto simp: find_Some_iff prefix_def)

function stripStart :: "string list \<Rightarrow> string \<Rightarrow> string" where
  \<comment> \<open>the text without the longest run of the given sequences at its start\<close>
  "stripStart ws s =
     (case find (\<lambda>p. p \<noteq> [] \<and> prefix p s) ws of
        None \<Rightarrow> s
      | Some p \<Rightarrow> stripStart ws (drop (length p) s))"
  by pat_completeness auto
termination
  by (relation "measure (\<lambda>(ws, s). length s)") (auto dest: find_prefix_shorter)

declare stripStart.simps [simp del]

definition trim :: "string \<Rightarrow> string" where
  \<comment> \<open>white space is stripped at the start, and at the end on the reversed text\<close>
  "trim s = rev (stripStart (map rev whiteSpace) (rev (stripStart whiteSpace s)))"

fun join :: "string \<Rightarrow> string list \<Rightarrow> string" where
  \<comment> \<open>\<^verbatim>\<open>Array.prototype.join\<close>\<close>
  "join sep [] = []"
| "join sep [x] = x"
| "join sep (x # y # ys) = x @ sep @ join sep (y # ys)"

fun truthy :: "string option \<Rightarrow> bool" where
  \<comment> \<open>an optional string in a boolean position: \<^verbatim>\<open>undefined\<close> and the empty string
      are falsy\<close>
  "truthy None = False"
| "truthy (Some s) = (s \<noteq> [])"

definition orElse :: "string option \<Rightarrow> string \<Rightarrow> string" where
  \<comment> \<open>the operator \<^verbatim>\<open>||\<close> on an optional string\<close>
  "orElse v d = (if truthy v then the v else d)"

definition nullish :: "'a option \<Rightarrow> 'a \<Rightarrow> 'a" where
  \<comment> \<open>the operator \<^verbatim>\<open>??\<close>\<close>
  "nullish v d = (case v of None \<Rightarrow> d | Some x \<Rightarrow> x)"

fun showNat :: "nat \<Rightarrow> string" where
  \<comment> \<open>a non-negative integer in a template literal: its decimal digits\<close>
  "showNat n =
     (if n < 10 then [''0123456789'' ! n]
      else showNat (n div 10) @ [''0123456789'' ! (n mod 10)])"

declare showNat.simps [simp del]


section \<open>Model registry and endpoint router\<close>

definition CODESTRAL_API_BASE :: string where
  "CODESTRAL_API_BASE = ''https://codestral.mistral.ai/v1''"

definition MISTRAL_API_BASE :: string where
  "MISTRAL_API_BASE = ''https://api.mistral.com/v1''"

text \<open>The entries of \<^verbatim>\<open>MISTRAL_MODELS\<close>; a \<^verbatim>\<open>MistralModel\<close> is one of these six strings.\<close>

type_synonym MistralModel = string

definition CODESTRAL :: MistralModel where
  "CODESTRAL = ''codestral-latest''"

definition CODESTRAL_MAMBA :: MistralModel where
  "CODESTRAL_MAMBA = ''codestral-mamba-latest''"

definition MISTRAL_LARGE :: MistralModel where
  "MISTRAL_LARGE = ''mistral-large-latest''"

definition MISTRAL_SMALL :: MistralModel where
  "MISTRAL_SMALL = ''mistral-small-latest''"

definition MINISTRAL_8B :: MistralModel where
  "MINISTRAL_8B = ''ministral-8b-latest''"

definition MINISTRAL_3B :: MistralModel where
  "MINISTRAL_3B = ''ministral-3b-latest''"

definition getApiBase :: "MistralModel \<Rightarrow> string" where
  "getApiBase model =
     (if model = CODESTRAL \<or> model = CODESTRAL_MAMBA then CODESTRAL_API_BASE
      else MISTRAL_API_BASE)"


section \<open>Request bodies\<close>

record message =
  role :: string
  content :: string

record sampling_options =
  temperature :: "real option"
  top_p :: "real option"
  max_tokens :: "real option"
  stop :: "string list option"

record chat_options = sampling_options +
  model :: "MistralModel option"


text \<open>The options object a caller leaves out, \<^verbatim>\<open>{}\<close>.\<close>

definition no_chat_options :: chat_options where
  "no_chat_options =
     \<lparr>temperature = None, top_p = None, max_tokens = None, stop = None, model = None\<rparr>"


record request_body =
  body_model :: MistralModel
  body_temperature :: real
  body_top_p :: real
  body_max_tokens :: real
  body_stop :: "string list option"

record chat_body = request_body +
  body_messages :: "message list"


definition chatModel :: "chat_options \<Rightarrow> MistralModel" where
  \<comment> \<open>\<^verbatim>\<open>options.model || MISTRAL_MODELS.CODESTRAL\<close>\<close>
  "chatModel options = orElse (model options) CODESTRAL"

definition chatRequestBody :: "message list \<Rightarrow> chat_options \<Rightarrow> chat_body" where
  \<comment> \<open>the object \<^verbatim>\<open>chatCompletion\<close> posts to \<^verbatim>\<open>/chat/completions\<close>\<close>
  "chatRequestBody msgs options =
     \<lparr>body_model = chatModel options,
      body_temperature = nullish (temperature options) 0.7,
      body_top_p = nullish (top_p options) 1,
      body_max_tokens = nullish (max_tokens options) 1000,
      body_stop = stop options,
      body_messages = msgs\<rparr>"



section \<open>Prompt builder\<close>

datatype task = Complete | Fix | Test | Fim

fun systemPrompts :: "task \<Rightarrow> string" where
  "systemPrompts Complete =
     ''You are an expert programmer. Continue or complete the provided code according to best practices.''"
| "systemPrompts Fix =
     ''You are an expert programmer. Analyze the code for bugs and provide a corrected version with explanations of the fixes.''"
| "systemPrompts Test =
     ''You are an expert programmer. Generate comprehensive unit tests for the provided code using appropriate testing frameworks.''"
| "systemPrompts Fim =
     ''You are an expert programmer. Complete the code between the given start and end sections, ensuring it flows naturally.''"

definition createPrompt ::
  "string \<Rightarrow> string option \<Rightarrow> task \<Rightarrow> string option \<Rightarrow> message list" where
  "createPrompt code language task sfx =
     (let langStr = (if truthy language then '' '' @ the language else []);
          userContent =
            ''Here is the'' @ langStr @ '' code:\<newline>\<newline>```'' @ orElse language []
              @ ''\<newline>'' @ code @ ''\<newline>```'';
          userContent' =
            (if task = Fim \<and> truthy sfx
             then userContent @ ''\<newline>\<newline>The code should end with:\<newline>\<newline>```''
               @ orElse language [] @ ''\<newline>'' @ the sfx @ ''\<newline>```''
             else userContent)
      in [\<lparr>role = ''system'', content = systemPrompts task\<rparr>,
          \<lparr>role = ''user'', content = userContent'\<rparr>])"


section \<open>Upstream replies and the response validator\<close>

text \<open>
  The body of an upstream reply, \<^verbatim>\<open>response.data\<close>, is a JSON value. An object is
  written as the association list of its properties, read with \<^const>\<open>map_of\<close>.
\<close>

datatype json =
  JNull
| JBool bool
| JNum real
| JStr string
| JArr "json list"
| JObj "(string \<times> json) list"

text \<open>
  The schema combinators of the validation library, applied to the value of a property
  (\<^const>\<open>None\<close> when the property is missing). Each returns \<^const>\<open>None\<close> where the
  library reports an issue.
\<close>

fun zString :: "json option \<Rightarrow> string option" where
  "zString (Some (JStr s)) = Some s"
| "zString _ = None"

fun zNumber :: "json option \<Rightarrow> real option" where
  "zNumber (Some (JNum n)) = Some n"
| "zNumber _ = None"

fun zOptionalString :: "json option \<Rightarrow> string option option" where
  "zOptionalString None = Some None"
| "zOptionalString (Some (JStr s)) = Some (Some s)"
| "zOptionalString _ = None"

fun zObject :: "json option \<Rightarrow> (string \<times> json) list option" where
  "zObject (Some (JObj props)) = Some props"
| "zObject _ = None"

fun zArray :: "(json option \<Rightarrow> 'a option) \<Rightarrow> json option \<Rightarrow> 'a list option" where
  "zArray item (Some (JArr [])) = Some []"
| "zArray item (Some (JArr (x # xs))) =
     do { y \<leftarrow> item (Some x); ys \<leftarrow> zArray item (Some (JArr xs)); Some (y # ys) }"
| "zArray item _ = None"

record choice =
  index :: real
  message :: message
  finish_reason :: "string option"

record usage =
  prompt_tokens :: real
  completion_tokens :: real
  total_tokens :: real

record completion =
  completion_id :: string
  completion_object :: string
  created :: real
  completion_model :: string
  choices :: "choice list"
  usage :: usage

definition parseMessage :: "json option \<Rightarrow> message option" where
  "parseMessage v =
     do { props \<leftarrow> zObject v;
          r \<leftarrow> zString (map_of props ''role'');
          c \<leftarrow> zString (map_of props ''content'');
          Some \<lparr>role = r, content = c\<rparr> }"

definition parseChoice :: "json option \<Rightarrow> choice option" where
  "parseChoice v =
     do { props \<leftarrow> zObject v;
          i \<leftarrow> zNumber (map_of props ''index'');
          m \<leftarrow> parseMessage (map_of props ''message'');
          f \<leftarrow> zOptionalString (map_of props ''finish_reason'');
          Some \<lparr>index = i, message = m, finish_reason = f\<rparr> }"

definition parseUsage :: "json option \<Rightarrow> usage option" where
  "parseUsage v =
     do { props \<leftarrow> zObject v;
          p \<leftarrow> zNumber (map_of props ''prompt_tokens'');
          c \<leftarrow> zNumber (map_of props ''completion_tokens'');
          t \<leftarrow> zNumber (map_of props ''total_tokens'');
          Some \<lparr>prompt_tokens = p, completion_tokens = c, total_tokens = t\<rparr> }"

definition CompletionResponseSchema_parse :: "json \<Rightarrow> completion option" where
  \<comment> \<open>\<^verbatim>\<open>CompletionResponseSchema.parse\<close>; \<^const>\<open>None\<close> where it throws\<close>
  "CompletionResponseSchema_parse d =
     do { props \<leftarrow> zObject (Some d);
          i \<leftarrow> zString (map_of props ''id'');
          ob \<leftarrow> zString (map_of props ''object'');
          cr \<leftarrow> zNumber (map_of props ''created'');
          m \<leftarrow> zString (map_of props ''model'');
          cs \<leftarrow> zArray parseChoice (map_of props ''choices'');
          u \<leftarrow> parseUsage (map_of props ''usage'');
          Some \<lparr>completion_id = i, completion_object = ob, created = cr,
                completion_model = m, choices = cs, usage = u\<rparr> }"


section \<open>Errors and their translation\<close>

text \<open>
  What the HTTP library passes to a \<^verbatim>\<open>catch\<close>: the message of the error and, when a
  reply was received, its status. Of the reply's body the translation reads
  \<^verbatim>\<open>data?.error?.message\<close> (here a string when present) and its JSON text.
\<close>

record axios_response =
  status :: nat
  error_message :: "string option"
  data_json :: string

record axios_error =
  err_message :: string
  response :: "axios_response option"

datatype js_error =
  AxiosError axios_error
| ZodError
| TypeError
| Error string

definition statusOf :: "axios_error \<Rightarrow> nat option" where
  \<comment> \<open>\<^verbatim>\<open>error.response?.status\<close>\<close>
  "statusOf e = map_option status (response e)"

definition showStatus :: "nat option \<Rightarrow> string" where
  \<comment> \<open>the status in a template literal\<close>
  "showStatus st = (case st of None \<Rightarrow> ''undefined'' | Some n \<Rightarrow> showNat n)"

definition messageOf :: "axios_error \<Rightarrow> string" where
  \<comment> \<open>\<^verbatim>\<open>error.response?.data?.error?.message || error.message\<close>\<close>
  "messageOf e = orElse (Option.bind (response e) error_message) (err_message e)"

definition chatTranslate :: "axios_error \<Rightarrow> js_error" where
  \<comment> \<open>the \<^verbatim>\<open>switch\<close> of \<^verbatim>\<open>chatCompletion\<close>\<close>
  "chatTranslate e =
     (let st = statusOf e; msg = messageOf e
      in if st = Some 401 then Error ''Authentication failed. Please check your API key.''
         else if st = Some 429 then Error ''Rate limit exceeded. Please try again later.''
         else if st = Some 500 then Error ''Mistral API server error. Please try again later.''
         else Error (''Mistral API error ('' @ showStatus st @ ''): '' @ msg))"

definition fimTranslate :: "axios_error \<Rightarrow> js_error" where
  \<comment> \<open>the \<^verbatim>\<open>switch\<close> of \<^verbatim>\<open>fimCompletion\<close>\<close>
  "fimTranslate e =
     (let st = statusOf e; msg = messageOf e
      in if st = Some 401 then Error ''Authentication failed. Please check your API key.''
         else if st = Some 429 then Error ''Rate limit exceeded. Please try again later.''
         else if st = Some 500 then Error ''Mistral API server error. Please try again later.''
         else Error (''Mistral API error ('' @ showStatus st @ ''): '' @ msg
                @ ''\<newline>Response: ''
                @ (case response e of None \<Rightarrow> ''undefined'' | Some r \<Rightarrow> data_json r)))"

fun chatCatch :: "js_error \<Rightarrow> js_error" where
  \<comment> \<open>the \<^verbatim>\<open>catch\<close> of \<^verbatim>\<open>chatCompletion\<close>: what it throws for what it caught\<close>
  "chatCatch (AxiosError e) = chatTranslate e"
| "chatCatch e = e"


section \<open>The client\<close>

record axios_client =
  baseURL :: string
  authorization :: string
  timeout :: nat

record MistralAPI =
  apiKey :: string
  codestralClient :: axios_client
  mistralClient :: axios_client
  lastRequestTime :: int

definition minRequestInterval :: int where
  "minRequestInterval = 100"

definition newMistralAPI :: "string \<Rightarrow> js_error + MistralAPI" where
  \<comment> \<open>the constructor\<close>
  "newMistralAPI key =
     (if key = [] \<or> length (trim key) = 0 then Inl (Error ''API key cannot be empty'')
      else Inr \<lparr>apiKey = trim key,
                codestralClient =
                  \<lparr>baseURL = CODESTRAL_API_BASE, authorization = ''Bearer '' @ trim key,
                   timeout = 30000\<rparr>,
                mistralClient =
                  \<lparr>baseURL = MISTRAL_API_BASE, authorization = ''Bearer '' @ trim key,
                   timeout = 30000\<rparr>,
                lastRequestTime = 0\<rparr>)"

definition getClient :: "MistralAPI \<Rightarrow> MistralModel \<Rightarrow> axios_client" where
  "getClient api modelId =
     (if getApiBase modelId = CODESTRAL_API_BASE then codestralClient api
      else mistralClient api)"

text \<open>
  The world outside the client: the clock that \<^verbatim>\<open>Date.now()\<close> reads, in milliseconds,
  and the requests dispatched so far, each with the time of its dispatch. The upstream
  service is a function from the request to the time the \<^verbatim>\<open>post\<close> takes and its
  outcome, as the HTTP library reports them: a reply body, or the error the promise is
  rejected with (after 30 seconds at most, an error without a reply).
\<close>

record request =
  req_client :: axios_client
  req_path :: string
  req_body :: chat_body

record world =
  clock :: int
  dispatches :: "(int \<times> request) list"

datatype post_outcome = Resolved json | Rejected js_error

type_synonym upstream = "request \<Rightarrow> nat \<times> post_outcome"

definition chatCompletion ::
  "upstream \<Rightarrow> MistralAPI \<Rightarrow> message list \<Rightarrow> chat_options \<Rightarrow> world
     \<Rightarrow> (js_error + completion) \<times> world" where
  "chatCompletion up api msgs options w =
     (let modelId = chatModel options;
          client = getClient api modelId;
          req = \<lparr>req_client = client, req_path = ''/chat/completions'',
                 req_body = chatRequestBody msgs options\<rparr>;
          (latency, outcome) = up req;
          w' = w\<lparr>clock := clock w + int latency,
                 dispatches := dispatches w @ [(clock w, req)]\<rparr>
      in (case outcome of
            Rejected e \<Rightarrow> Inl (chatCatch e)
          | Resolved d \<Rightarrow>
              (case CompletionResponseSchema_parse d of
                 None \<Rightarrow> Inl (chatCatch ZodError)
               | Some c \<Rightarrow> Inr c),
          w'))"

definition validateApiKey ::
  "upstream \<Rightarrow> MistralAPI \<Rightarrow> world \<Rightarrow> (js_error + bool) \<times> world" where
  "validateApiKey up api w =
     (case chatCompletion up api [\<lparr>role = ''user'', content = ''test''\<rparr>]
             (no_chat_options\<lparr>max_tokens := Some 1\<rparr>) w of
        (Inr c, w') \<Rightarrow> (Inr True, w')
      | (Inl err, w') \<Rightarrow>
          (case err of
             AxiosError e \<Rightarrow>
               if statusOf e = Some 401
               then (Inl (Error ''Invalid API key. Please check your Codestral API key.''), w')
               else (Inl (Error (''API validation failed: '' @ err_message e)), w')
           | _ \<Rightarrow> (Inl err, w')))"

definition enforceRateLimit :: "MistralAPI \<Rightarrow> world \<Rightarrow> MistralAPI \<times> world" where
  \<comment> \<open>the timer is taken to fire exactly when the delay has passed\<close>
  "enforceRateLimit api w =
     (let now = clock w;
          timeSinceLastRequest = now - lastRequestTime api;
          w' = (if timeSinceLastRequest < minRequestInterval
                then w\<lparr>clock := clock w + (minRequestInterval - timeSinceLastRequest)\<rparr>
                else w)
      in (api\<lparr>lastRequestTime := clock w'\<rparr>, w'))"

definition getMistralAPI ::
  "string \<Rightarrow> MistralAPI option \<Rightarrow> (js_error + MistralAPI) \<times> MistralAPI option" where
  \<comment> \<open>the module variable \<^verbatim>\<open>instance\<close> is passed in and returned\<close>
  "getMistralAPI key inst =
     (case inst of
        None \<Rightarrow>
          (case newMistralAPI key of
             Inl e \<Rightarrow> (Inl e, None)
           | Inr api \<Rightarrow> (Inr api, Some api))
      | Some api \<Rightarrow> (Inr api, Some api))"


section \<open>Code extractor\<close>

definition FENCE :: string where
  "FENCE = ''```''"

fun untilFence :: "string \<Rightarrow> (string \<times> string) option" where
  \<comment> \<open>the lazy group followed by the closing fence: the shortest text before a fence,
      and the text after that fence\<close>
  "untilFence [] = None"
| "untilFence (c # cs) =
     (if prefix FENCE (c # cs) then Some ([], drop 3 (c # cs))
      else map_option (\<lambda>(inner, rest). (c # inner, rest)) (untilFence cs))"

definition matchAt :: "string \<Rightarrow> (string \<times> string) option" where
  \<comment> \<open>one attempt of the regular expression at the start of the text: the captured
      group and the text after the match\<close>
  "matchAt s =
     (if prefix FENCE s
      then (case dropWhile isWordChar (drop 3 s) of
              [] \<Rightarrow> None
            | c # body \<Rightarrow> if c = CHR ''\<newline>'' then untilFence body else None)
      else None)"

lemma untilFence_shorter: "untilFence s = Some (inner, rest) \<Longrightarrow> length rest < length s"
proof (induction s arbitrary: inner)
  case Nil
  then show ?case by simp
next
  case (Cons c cs)
  show ?case
  proof (cases "prefix FENCE (c # cs)")
    case True
    with Cons.prems show ?thesis by auto
  next
    case False
    with Cons.prems obtain i where "untilFence cs = Some (i, rest)"
      by (auto split: prod.splits)
    from Cons.IH [OF this] show ?thesis by simp
  qed
qed

lemma matchAt_shorter: "matchAt s = Some (inner, rest) \<Longrightarrow> length rest < length s"
proof -
  assume m: "matchAt s = Some (inner, rest)"
  then obtain c body where d: "dropWhile isWordChar (drop 3 s) = c # body"
    and u: "untilFence body = Some (inner, rest)"
    by (auto simp: matchAt_def split: if_splits list.splits)
  have "length (dropWhile isWordChar (drop 3 s)) \<le> length s"
    by (rule order_trans [OF length_dropWhile_le]) simp
  with d have "length body < length s" by simp
  with untilFence_shorter [OF u] show ?thesis by simp
qed

function matchAll :: "string \<Rightarrow> string list" where
  \<comment> \<open>the captured groups of all matches, each search starting where the last match
      ended\<close>
  "matchAll [] = []"
| "matchAll (c # cs) =
     (case matchAt (c # cs) of
        None \<Rightarrow> matchAll cs
      | Some (inner, rest) \<Rightarrow> inner # matchAll rest)"
  by pat_completeness auto
termination
  by (relation "measure length") (auto dest: matchAt_shorter)

definition extractCode :: "string \<Rightarrow> string" where
  \<comment> \<open>the extraction of \<^verbatim>\<open>formatResponse\<close>\<close>
  "extractCode text =
     (let matches = matchAll text
      in if length matches > 0 then join ''\<newline>\<newline>'' (map trim matches) else text)"

definition formatResponse :: "completion \<Rightarrow> js_error + string" where
  "formatResponse c =
     (if choices c = [] then Inl (Error ''Invalid completion response'')
      else Inr (extractCode (content (message (hd (choices c))))))"

text \<open>
  The \<^verbatim>\<open>try\<close> block of the handler of the \<^verbatim>\<open>chat\<close> tool, on parameters that have
  passed its schema: the text it returns, or the error its \<^verbatim>\<open>catch\<close> reports to the
  caller. It reads \<^verbatim>\<open>completion.choices[0].message.content\<close> as it is; on an empty
  list \<^verbatim>\<open>choices[0]\<close> is \<^verbatim>\<open>undefined\<close> and reading its property throws the
  \<^const>\<open>TypeError\<close> of the engine.
\<close>

definition chatTool ::
  "upstream \<Rightarrow> MistralAPI \<Rightarrow> message list \<Rightarrow> chat_options \<Rightarrow> world
     \<Rightarrow> (js_error + string) \<times> world" where
  "chatTool up api msgs params w =
     (case chatCompletion up api msgs
             (params\<lparr>model := Some (orElse (model params) MISTRAL_LARGE)\<rparr>) w of
        (Inl e, w') \<Rightarrow> (Inl e, w')
      | (Inr c, w') \<Rightarrow>
          (case choices c of
             [] \<Rightarrow> (Inl TypeError, w')
           | ch # _ \<Rightarrow> (Inr (content (message ch)), w')))"


section \<open>The notions of the specification\<close>

text \<open>
  A fenced block: the body between an opening fence that carries the language tag and a
  closing fence, each on a line of its own.
\<close>

definition fenced :: "string \<Rightarrow> string \<Rightarrow> string" where
  "fenced tag body = ''```'' @ tag @ ''\<newline>'' @ body @ ''\<newline>```''"

text \<open>
  The shape of a completion result: the fields a reply must have, with their types. The
  property \<^verbatim>\<open>finish_reason\<close> of a choice is the only one that may be missing.
\<close>

definition has_text :: "(string \<times> json) list \<Rightarrow> string \<Rightarrow> bool" where
  "has_text props k = (\<exists>s. map_of props k = Some (JStr s))"

definition has_number :: "(string \<times> json) list \<Rightarrow> string \<Rightarrow> bool" where
  "has_number props k = (\<exists>n. map_of props k = Some (JNum n))"

definition valid_message :: "json option \<Rightarrow> bool" where
  "valid_message v =
     (\<exists>props. v = Some (JObj props) \<and> has_text props ''role'' \<and> has_text props ''content'')"

definition valid_choice :: "json \<Rightarrow> bool" where
  "valid_choice v =
     (\<exists>props. v = JObj props \<and> has_number props ''index''
        \<and> valid_message (map_of props ''message'')
        \<and> (map_of props ''finish_reason'' = None \<or> has_text props ''finish_reason''))"

definition valid_usage :: "json option \<Rightarrow> bool" where
  "valid_usage v =
     (\<exists>props. v = Some (JObj props) \<and> has_number props ''prompt_tokens''
        \<and> has_number props ''completion_tokens'' \<and> has_number props ''total_tokens'')"

definition valid_shape :: "json \<Rightarrow> bool" where
  "valid_shape d =
     (\<exists>props. d = JObj props \<and> has_text props ''id'' \<and> has_text props ''object''
        \<and> has_number props ''created'' \<and> has_text props ''model''
        \<and> (\<exists>cs. map_of props ''choices'' = Some (JArr cs) \<and> list_all valid_choice cs)
        \<and> valid_usage (map_of props ''usage''))"

text \<open>
  The fenced code blocks of a text. A block begins the text \<open>s\<close> when \<open>s\<close> is an opening
  fence with an optional language tag (word characters, as the regular expression has
  them), a line break, the body, and the next closing fence: no fence begins before the
  one that closes the block. The blocks of a text, in document order, are the first
  block that begins anywhere in it, then the blocks of what follows its closing fence.
\<close>

definition block_at :: "string \<Rightarrow> string \<Rightarrow> string \<Rightarrow> bool" where
  "block_at s body rest =
     (\<exists>tag. s = FENCE @ tag @ ''\<newline>'' @ body @ FENCE @ rest
        \<and> list_all isWordChar tag
        \<and> (\<forall>i<length body. \<not> prefix FENCE (drop i (body @ FENCE @ rest))))"

definition starts_block :: "string \<Rightarrow> bool" where
  "starts_block s = (\<exists>body rest. block_at s body rest)"

inductive fenced_blocks :: "string \<Rightarrow> string list \<Rightarrow> bool" where
  no_block: "(\<forall>i\<le>length t. \<not> starts_block (drop i t)) \<Longrightarrow> fenced_blocks t []"
| next_block:
    "(\<forall>i<length prose. \<not> starts_block (drop i (prose @ s))) \<Longrightarrow> block_at s body rest
       \<Longrightarrow> fenced_blocks rest bodies \<Longrightarrow> fenced_blocks (prose @ s) (body # bodies)"


section \<open>Example inputs\<close>

text \<open>The client that the constructor builds from the key \<^verbatim>\<open>key1\<close>.\<close>

definition example_api :: MistralAPI where
  "example_api =
     \<lparr>apiKey = ''key1'',
      codestralClient =
        \<lparr>baseURL = CODESTRAL_API_BASE, authorization = ''Bearer key1'', timeout = 30000\<rparr>,
      mistralClient =
        \<lparr>baseURL = MISTRAL_API_BASE, authorization = ''Bearer key1'', timeout = 30000\<rparr>,
      lastRequestTime = 0\<rparr>"

text \<open>A rejection of the \<^verbatim>\<open>post\<close> by a reply with the given status.\<close>

definition example_rejection :: "nat \<Rightarrow> js_error" where
  "example_rejection st =
     AxiosError \<lparr>err_message = ''Request failed'',
       response = Some \<lparr>status = st, error_message = None, data_json = ''{}''\<rparr>\<rparr>"

text \<open>The properties of a reply body with the given choices and usage counts.\<close>

definition example_body :: "json list \<Rightarrow> (string \<times> json) list \<Rightarrow> (string \<times> json) list" where
  "example_body cs u =
     [(''id'', JStr ''cmpl-1''), (''object'', JStr ''chat.completion''),
      (''created'', JNum 1700000000), (''model'', JStr ''codestral-latest''),
      (''choices'', JArr cs), (''usage'', JObj u)]"

text \<open>A reply text with two fenced blocks and prose around them.\<close>

definition example_reply :: string where
  "example_reply = ''prefix ```js\<newline>code1\<newline>``` middle ```\<newline>code2\<newline>``` suffix''"


section \<open>Auxiliary facts\<close>

subsection \<open>The validator accepts exactly the replies of the required shape\<close>

lemma zString_Some: "(\<exists>s. zString v = Some s) = (\<exists>s. v = Some (JStr s))"
  by (cases v rule: zString.cases) auto

lemma zNumber_Some: "(\<exists>n. zNumber v = Some n) = (\<exists>n. v = Some (JNum n))"
  by (cases v rule: zNumber.cases) auto

lemma zObject_Some: "(zObject v = Some props) = (v = Some (JObj props))"
  by (cases v rule: zObject.cases) auto

lemma zOptionalString_D:
  "zOptionalString v = Some f \<Longrightarrow> zString v = None \<Longrightarrow> v = None"
  by (cases v rule: zOptionalString.cases) auto

lemma zOptionalString_I: "zString v = Some s \<Longrightarrow> \<exists>f. zOptionalString v = Some f"
  by (cases v rule: zOptionalString.cases) auto

lemma bind_Some_ex: "(\<exists>y. Option.bind m f = Some y) = (\<exists>x. m = Some x \<and> (\<exists>y. f x = Some y))"
  by (cases m) auto

lemma parseMessage_valid: "(\<exists>m. parseMessage v = Some m) = valid_message v"
  unfolding parseMessage_def valid_message_def has_text_def
  by (simp only: bind_Some_ex zObject_Some zString_Some [symmetric]) auto

lemma parseUsage_valid: "(\<exists>u. parseUsage v = Some u) = valid_usage v"
  unfolding parseUsage_def valid_usage_def has_number_def
  by (simp only: bind_Some_ex zObject_Some zNumber_Some [symmetric]) auto

lemma parseChoice_valid: "(\<exists>c. parseChoice (Some x) = Some c) = valid_choice x"
  unfolding parseChoice_def valid_choice_def has_number_def has_text_def
  apply (simp only: bind_Some_ex zObject_Some zNumber_Some [symmetric] zString_Some [symmetric]
     parseMessage_valid [symmetric])
  apply (auto dest: zOptionalString_D intro: zOptionalString_I)
  done

lemma zArray_valid:
  "(\<exists>ys. zArray item v = Some ys)
     = (\<exists>xs. v = Some (JArr xs) \<and> list_all (\<lambda>x. \<exists>y. item (Some x) = Some y) xs)"
proof (cases v)
  case None
  then show ?thesis by simp
next
  case (Some j)
  show ?thesis
  proof (cases j)
    case (JArr xs)
    have "(\<exists>ys. zArray item (Some (JArr xs)) = Some ys)
            = list_all (\<lambda>x. \<exists>y. item (Some x) = Some y) xs"
      by (induction xs) (auto simp: bind_eq_Some_conv)
    with Some JArr show ?thesis by simp
  qed (use Some in auto)
qed

lemma choices_valid:
  "(\<exists>cs. zArray parseChoice v = Some cs)
     = (\<exists>xs. v = Some (JArr xs) \<and> list_all valid_choice xs)"
  by (simp only: zArray_valid parseChoice_valid)

lemma parse_valid_shape: "(\<exists>c. CompletionResponseSchema_parse d = Some c) = valid_shape d"
  unfolding CompletionResponseSchema_parse_def valid_shape_def has_number_def has_text_def
  apply (simp only: bind_Some_ex zObject_Some zNumber_Some [symmetric] zString_Some [symmetric]
     parseUsage_valid [symmetric] choices_valid [symmetric])
  apply auto
  done

lemma parse_None_iff: "(CompletionResponseSchema_parse d = None) = (\<not> valid_shape d)"
  using parse_valid_shape [of d] by auto

lemma parse_choices:
  "CompletionResponseSchema_parse (JObj props) = Some c \<Longrightarrow>
     zArray parseChoice (map_of props ''choices'') = Some (choices c)"
  by (auto simp: CompletionResponseSchema_parse_def bind_eq_Some_conv)

lemma parse_example_no_total:
  "CompletionResponseSchema_parse
     (JObj (example_body [] [(''prompt_tokens'', JNum 3), (''completion_tokens'', JNum 0)])) = None"
  by (simp add: CompletionResponseSchema_parse_def example_body_def parseUsage_def)

lemma parse_example_no_choices:
  "CompletionResponseSchema_parse
     (JObj (example_body []
        [(''prompt_tokens'', JNum 3), (''completion_tokens'', JNum 0), (''total_tokens'', JNum 3)]))
   = Some \<lparr>completion_id = ''cmpl-1'', completion_object = ''chat.completion'',
       created = 1700000000, completion_model = ''codestral-latest'', choices = [],
       usage = \<lparr>prompt_tokens = 3, completion_tokens = 0, total_tokens = 3\<rparr>\<rparr>"
  by (simp add: CompletionResponseSchema_parse_def example_body_def parseUsage_def)

text \<open>
  The validator fails exactly on the replies that are not of the required shape, and then
  \<^const>\<open>chatCompletion\<close> returns the validation error and no result; a reply of the
  required shape is returned as parsed; a reply whose usage object has no
  \<^verbatim>\<open>total_tokens\<close> fails; a reply of the required shape whose choices are the empty list
  is accepted, and \<^const>\<open>formatResponse\<close> fails on it with its own error.
\<close>

lemma response_validation:
  "(CompletionResponseSchema_parse d = None) = (\<not> valid_shape d)
   \<and> (\<not> valid_shape d \<longrightarrow>
        fst (chatCompletion (\<lambda>req. (lat, Resolved d)) api msgs options w) = Inl ZodError)
   \<and> (valid_shape d \<longrightarrow>
        (\<exists>c. CompletionResponseSchema_parse d = Some c
           \<and> fst (chatCompletion (\<lambda>req. (lat, Resolved d)) api msgs options w) = Inr c))
   \<and> (map_of props ''usage'' = Some (JObj u) \<and> map_of u ''total_tokens'' = None \<longrightarrow>
        CompletionResponseSchema_parse (JObj props) = None)
   \<and> (valid_shape (JObj props') \<and> map_of props' ''choices'' = Some (JArr []) \<longrightarrow>
        (\<exists>c. CompletionResponseSchema_parse (JObj props') = Some c \<and> choices c = []
           \<and> formatResponse c = Inl (Error ''Invalid completion response'')))"
proof (intro conjI impI)
  show "(CompletionResponseSchema_parse d = None) = (\<not> valid_shape d)"
    by (rule parse_None_iff)
next
  assume "\<not> valid_shape d"
  then have "CompletionResponseSchema_parse d = None" by (simp add: parse_None_iff)
  then show "fst (chatCompletion (\<lambda>req. (lat, Resolved d)) api msgs options w) = Inl ZodError"
    by (simp add: chatCompletion_def Let_def)
next
  assume "valid_shape d"
  then obtain c where "CompletionResponseSchema_parse d = Some c"
    using parse_valid_shape [of d] by blast
  then show "\<exists>c. CompletionResponseSchema_parse d = Some c
           \<and> fst (chatCompletion (\<lambda>req. (lat, Resolved d)) api msgs options w) = Inr c"
    by (simp add: chatCompletion_def Let_def)
next
  assume "map_of props ''usage'' = Some (JObj u) \<and> map_of u ''total_tokens'' = None"
  then have "\<not> valid_usage (map_of props ''usage'')"
    by (simp add: valid_usage_def has_number_def)
  then have "\<not> valid_shape (JObj props)" by (simp add: valid_shape_def)
  then show "CompletionResponseSchema_parse (JObj props) = None" by (simp add: parse_None_iff)
next
  assume a: "valid_shape (JObj props') \<and> map_of props' ''choices'' = Some (JArr [])"
  then obtain c where c: "CompletionResponseSchema_parse (JObj props') = Some c"
    using parse_valid_shape [of "JObj props'"] by blast
  from parse_choices [OF c] a have "choices c = []" by simp
  with c show "\<exists>c. CompletionResponseSchema_parse (JObj props') = Some c \<and> choices c = []
           \<and> formatResponse c = Inl (Error ''Invalid completion response'')"
    by (simp add: formatResponse_def)
qed

lemma response_validation_example:
  "\<not> valid_shape (JObj (example_body [] [(''prompt_tokens'', JNum 3), (''completion_tokens'', JNum 0)]))
   \<and> fst (chatCompletion
        (\<lambda>req. (20, Resolved (JObj (example_body [] [(''prompt_tokens'', JNum 3), (''completion_tokens'', JNum 0)]))))
        example_api [] no_chat_options \<lparr>clock = 0, dispatches = []\<rparr>) = Inl ZodError
   \<and> CompletionResponseSchema_parse
        (JObj (example_body [] [(''prompt_tokens'', JNum 3), (''completion_tokens'', JNum 0)])) = None
   \<and> valid_shape (JObj (example_body []
        [(''prompt_tokens'', JNum 3), (''completion_tokens'', JNum 0), (''total_tokens'', JNum 3)]))
   \<and> (\<exists>c. CompletionResponseSchema_parse (JObj (example_body []
        [(''prompt_tokens'', JNum 3), (''completion_tokens'', JNum 0), (''total_tokens'', JNum 3)])) = Some c
         \<and> choices c = [] \<and> formatResponse c = Inl (Error ''Invalid completion response''))"
proof -
  let ?bad = "example_body [] [(''prompt_tokens'', JNum 3), (''completion_tokens'', JNum 0)]"
  let ?good = "example_body []
        [(''prompt_tokens'', JNum 3), (''completion_tokens'', JNum 0), (''total_tokens'', JNum 3)]"
  note t = response_validation [of "JObj ?bad" 20 example_api "[]" no_chat_options
      "\<lparr>clock = 0, dispatches = []\<rparr>" ?bad "[(''prompt_tokens'', JNum 3), (''completion_tokens'', JNum 0)]" ?good]
  have bad: "\<not> valid_shape (JObj ?bad)"
    using t parse_example_no_total by simp
  have u: "map_of ?bad ''usage'' = Some (JObj [(''prompt_tokens'', JNum 3), (''completion_tokens'', JNum 0)])
      \<and> map_of [(''prompt_tokens'', JNum 3), (''completion_tokens'', JNum 0)] ''total_tokens'' = None"
    by (simp add: example_body_def)
  have good: "valid_shape (JObj ?good) \<and> map_of ?good ''choices'' = Some (JArr [])"
    using parse_valid_shape [of "JObj ?good"] parse_example_no_choices
    by (simp add: example_body_def)
  from t bad u good show ?thesis by blast
qed

subsection \<open>The matches of the regular expression are the fenced blocks\<close>

lemma FENCE_length [simp]: "length FENCE = 3"
  by (simp add: FENCE_def)

lemma prefix_FENCE_drop: "prefix FENCE s \<Longrightarrow> s = FENCE @ drop 3 s"
  by (auto simp: prefix_def)

lemma untilFence_iff:
  "(untilFence r = Some (b, p))
     = (r = b @ FENCE @ p \<and> (\<forall>i<length b. \<not> prefix FENCE (drop i r)))"
proof (induction r arbitrary: b)
  case Nil
  then show ?case by (simp add: FENCE_def)
next
  case (Cons c cs)
  show ?case
  proof (cases "prefix FENCE (c # cs)")
    case True
    have "(c # cs = b @ FENCE @ p \<and> (\<forall>i<length b. \<not> prefix FENCE (drop i (c # cs))))
            = (b = [] \<and> p = drop 3 (c # cs))"
    proof
      assume a: "c # cs = b @ FENCE @ p \<and> (\<forall>i<length b. \<not> prefix FENCE (drop i (c # cs)))"
      have "b = []"
      proof (rule ccontr)
        assume "b \<noteq> []"
        then have "0 < length b" by simp
        with a have "\<not> prefix FENCE (drop 0 (c # cs))" by blast
        with True show False by simp
      qed
      with a show "b = [] \<and> p = drop 3 (c # cs)" by auto
    next
      assume "b = [] \<and> p = drop 3 (c # cs)"
      with prefix_FENCE_drop [OF True] show
        "c # cs = b @ FENCE @ p \<and> (\<forall>i<length b. \<not> prefix FENCE (drop i (c # cs)))"
        by simp
    qed
    with True show ?thesis by auto
  next
    case False
    have "(c # cs = b @ FENCE @ p \<and> (\<forall>i<length b. \<not> prefix FENCE (drop i (c # cs))))
            = (\<exists>b'. b = c # b' \<and> cs = b' @ FENCE @ p
                 \<and> (\<forall>i<length b'. \<not> prefix FENCE (drop i cs)))"
    proof (cases b)
      case Nil
      with False show ?thesis by auto
    next
      case (Cons c' b')
      have "(\<forall>i<Suc (length b'). \<not> prefix FENCE (drop i (c # cs)))
              = (\<forall>i<length b'. \<not> prefix FENCE (drop i cs))"
      proof
        assume a: "\<forall>i<Suc (length b'). \<not> prefix FENCE (drop i (c # cs))"
        show "\<forall>i<length b'. \<not> prefix FENCE (drop i cs)"
        proof (intro allI impI)
          fix i assume "i < length b'"
          then have "Suc i < Suc (length b')" by simp
          with a have "\<not> prefix FENCE (drop (Suc i) (c # cs))" by blast
          then show "\<not> prefix FENCE (drop i cs)" by simp
        qed
      next
        assume a: "\<forall>i<length b'. \<not> prefix FENCE (drop i cs)"
        show "\<forall>i<Suc (length b'). \<not> prefix FENCE (drop i (c # cs))"
        proof (intro allI impI)
          fix i assume "i < Suc (length b')"
          then show "\<not> prefix FENCE (drop i (c # cs))"
            using a False by (cases i) auto
        qed
      qed
      with Cons show ?thesis by auto
    qed
    with False Cons.IH show ?thesis by auto
  qed
qed

lemma isWordChar_newline [simp]: "\<not> isWordChar CHR ''\<newline>''"
  by (simp add: isWordChar_def)

lemma matchAt_iff: "(matchAt s = Some (b, p)) = block_at s b p"
proof
  assume m: "matchAt s = Some (b, p)"
  then have pre: "prefix FENCE s"
    by (auto simp: matchAt_def split: if_splits)
  with m obtain body where d: "dropWhile isWordChar (drop 3 s) = CHR ''\<newline>'' # body"
    and u: "untilFence body = Some (b, p)"
    by (auto simp: matchAt_def split: if_splits list.splits)
  have "drop 3 s = takeWhile isWordChar (drop 3 s) @ dropWhile isWordChar (drop 3 s)"
    by simp
  with d prefix_FENCE_drop [OF pre]
  have s: "s = FENCE @ takeWhile isWordChar (drop 3 s) @ ''\<newline>'' @ body"
    by simp
  note untilFence_iff [THEN iffD1, OF u]
  moreover have "list_all isWordChar (takeWhile isWordChar (drop 3 s))"
    by (simp add: list_all_iff) (meson set_takeWhileD)
  ultimately show "block_at s b p"
    unfolding block_at_def using s by blast
next
  assume "block_at s b p"
  then obtain tag where s: "s = FENCE @ tag @ ''\<newline>'' @ b @ FENCE @ p"
    and t: "list_all isWordChar tag"
    and f: "\<forall>i<length b. \<not> prefix FENCE (drop i (b @ FENCE @ p))"
    unfolding block_at_def by blast
  from s have pre: "prefix FENCE s" by simp
  from s have "drop 3 s = tag @ CHR ''\<newline>'' # (b @ FENCE @ p)" by simp
  moreover from t have "dropWhile isWordChar (tag @ CHR ''\<newline>'' # (b @ FENCE @ p))
      = CHR ''\<newline>'' # (b @ FENCE @ p)"
    by (simp add: list_all_iff dropWhile_append3)
  moreover from f have "untilFence (b @ FENCE @ p) = Some (b, p)"
    by (intro untilFence_iff [THEN iffD2] conjI refl)
  ultimately show "matchAt s = Some (b, p)"
    using pre by (simp add: matchAt_def)
qed

lemma starts_block_iff: "starts_block s = (matchAt s \<noteq> None)"
  by (auto simp: starts_block_def matchAt_iff [symmetric])

lemma not_starts_block: "\<not> starts_block s \<Longrightarrow> matchAt s = None"
  by (cases "matchAt s") (auto simp: starts_block_def matchAt_iff [symmetric])

lemma matchAll_Some: "matchAt s = Some (b, p) \<Longrightarrow> matchAll s = b # matchAll p"
  by (cases s) (auto simp: matchAt_def FENCE_def)

lemma matchAll_None: "matchAt (c # cs) = None \<Longrightarrow> matchAll (c # cs) = matchAll cs"
  by simp

lemma fenced_blocks_Cons:
  assumes "fenced_blocks cs bs" and "\<not> starts_block (c # cs)"
  shows "fenced_blocks (c # cs) bs"
  using assms
proof (cases rule: fenced_blocks.cases)
  case no_block
  have "\<forall>i\<le>length (c # cs). \<not> starts_block (drop i (c # cs))"
  proof (intro allI impI)
    fix i assume "i \<le> length (c # cs)"
    then show "\<not> starts_block (drop i (c # cs))"
      using no_block assms(2) by (cases i) auto
  qed
  with no_block show ?thesis by (auto intro: fenced_blocks.no_block)
next
  case (next_block prose s body rest bodies)
  have "\<forall>i<length (c # prose). \<not> starts_block (drop i ((c # prose) @ s))"
  proof (intro allI impI)
    fix i assume "i < length (c # prose)"
    then show "\<not> starts_block (drop i ((c # prose) @ s))"
      using next_block assms(2) by (cases i) auto
  qed
  from fenced_blocks.next_block [OF this next_block(4) next_block(5)] next_block
  show ?thesis by simp
qed

lemma fenced_blocks_matchAll: "fenced_blocks t (matchAll t)"
proof (induction t rule: matchAll.induct)
  case 1
  show ?case by (auto intro!: fenced_blocks.no_block simp: starts_block_iff matchAt_def FENCE_def)
next
  case (2 c cs)
  show ?case
  proof (cases "matchAt (c # cs)")
    case None
    with 2 show ?thesis by (simp add: fenced_blocks_Cons starts_block_iff)
  next
    case (Some m)
    obtain b p where m: "m = (b, p)" by (cases m)
    with Some 2 have "fenced_blocks p (matchAll p)" by simp
    moreover from Some m have "block_at (c # cs) b p" by (simp add: matchAt_iff)
    ultimately have "fenced_blocks ([] @ (c # cs)) (b # matchAll p)"
      by (intro fenced_blocks.next_block) auto
    with Some m show ?thesis by simp
  qed
qed

lemma matchAll_no_block: "(\<forall>i\<le>length t. \<not> starts_block (drop i t)) \<Longrightarrow> matchAll t = []"
proof (induction t)
  case Nil
  show ?case by simp
next
  case (Cons c cs)
  have "\<forall>i\<le>length cs. \<not> starts_block (drop i cs)"
  proof (intro allI impI)
    fix i assume "i \<le> length cs"
    then have "Suc i \<le> length (c # cs)" by simp
    with Cons.prems have "\<not> starts_block (drop (Suc i) (c # cs))" by blast
    then show "\<not> starts_block (drop i cs)" by simp
  qed
  moreover from Cons.prems have "\<not> starts_block (drop 0 (c # cs))" by blast
  then have "matchAt (c # cs) = None" by (simp add: not_starts_block)
  ultimately show ?case using Cons.IH by simp
qed

lemma matchAll_skip_prose:
  "(\<forall>i<length prose. \<not> starts_block (drop i (prose @ s))) \<Longrightarrow> matchAll (prose @ s) = matchAll s"
proof (induction prose)
  case Nil
  show ?case by simp
next
  case (Cons c cs)
  have "\<forall>i<length cs. \<not> starts_block (drop i (cs @ s))"
  proof (intro allI impI)
    fix i assume "i < length cs"
    then have "Suc i < length (c # cs)" by simp
    with Cons.prems have "\<not> starts_block (drop (Suc i) ((c # cs) @ s))" by blast
    then show "\<not> starts_block (drop i (cs @ s))" by simp
  qed
  moreover from Cons.prems have "\<not> starts_block (drop 0 ((c # cs) @ s))" by blast
  then have "matchAt (c # cs @ s) = None" by (simp add: not_starts_block)
  ultimately show ?case using Cons.IH by simp
qed

lemma fenced_blocks_unique: "fenced_blocks t bs \<Longrightarrow> matchAll t = bs"
proof (induction rule: fenced_blocks.induct)
  case (no_block t)
  then show ?case by (rule matchAll_no_block)
next
  case (next_block prose s body rest bodies)
  from next_block(2) have "matchAll s = body # matchAll rest"
    by (simp add: matchAt_iff [symmetric] matchAll_Some)
  with next_block show ?case by (simp add: matchAll_skip_prose)
qed

lemma no_fence_matchAll: "\<not> sublist FENCE s \<Longrightarrow> matchAll s = []"
proof (induction s)
  case Nil
  show ?case by simp
next
  case (Cons c cs)
  from Cons.prems have "\<not> prefix FENCE (c # cs)" by (auto simp: sublist_Cons_right)
  then have "matchAt (c # cs) = None" by (simp add: matchAt_def)
  moreover from Cons.prems have "\<not> sublist FENCE cs"  by (auto simp: sublist_Cons_right)
  ultimately show ?case using Cons.IH by simp
qed

lemma matchAll_example: "matchAll example_reply = [''code1\<newline>'', ''code2\<newline>'']"
  by (simp add: example_reply_def matchAt_def FENCE_def isWordChar_def)

lemma extract_example: "extractCode example_reply = ''code1\<newline>\<newline>code2''"
  by (simp add: extractCode_def matchAll_example trim_def whiteSpace_def stripStart.simps)

lemma extract_plain: "extractCode ''plain text'' = ''plain text''"
  by (simp add: extractCode_def matchAt_def FENCE_def)

subsection \<open>The client of the example, and the pacing helper\<close>

lemma showNat_404: "showNat 404 = ''404''"
  by (simp add: showNat.simps)

lemma stripStart_Nil: "stripStart ws [] = []"
proof -
  have "find (\<lambda>p. p \<noteq> [] \<and> prefix p []) ws = None"
    by (simp add: find_None_iff)
  then show ?thesis
    by (subst stripStart.simps) simp
qed

lemma trim_Nil: "trim [] = []"
  by (simp add: trim_def stripStart_Nil)

lemma trim_key1: "trim ''key1'' = ''key1''"
  by (simp add: trim_def whiteSpace_def stripStart.simps)

lemma newMistralAPI_key1: "newMistralAPI ''key1'' = Inr example_api"
  by (simp add: newMistralAPI_def example_api_def trim_key1)

text \<open>
  The helper itself keeps the interval: when it returns, at least 100 ms have passed
  since the time it had recorded, and it records the time of its return.
\<close>

lemma enforceRateLimit_floor:
  "lastRequestTime api \<le> clock w \<Longrightarrow>
     lastRequestTime api + minRequestInterval \<le> clock (snd (enforceRateLimit api w))
     \<and> lastRequestTime (fst (enforceRateLimit api w)) = clock (snd (enforceRateLimit api w))
     \<and> dispatches (snd (enforceRateLimit api w)) = dispatches w"
  by (simp add: enforceRateLimit_def Let_def)


section \<open>The claims\<close>

subsection \<open>C1: pacing of outbound calls\<close>

text \<open>
  Claim C1 says that every outbound call runs the pacer before its dispatch, so that the
  dispatch times of consecutive calls are at least 100 ms apart. The client defines
  \<^const>\<open>enforceRateLimit\<close> and nothing calls it: \<^const>\<open>chatCompletion\<close> posts at the time
  it is entered, whatever the time of the last request was. Two calls in a row, the first
  answered after 20 ms, are dispatched at 1000 and at 1020.
\<close>

theorem chatCompletion_not_paced:
  "map fst (dispatches (snd (chatCompletion up api msgs options w)))
     = map fst (dispatches w) @ [clock w]
   \<and> map fst (dispatches (snd
         (chatCompletion (\<lambda>req. (20, Rejected (example_rejection 429))) example_api msgs
            no_chat_options
            (snd (chatCompletion (\<lambda>req. (20, Rejected (example_rejection 429))) example_api
                    msgs no_chat_options \<lparr>clock = 1000, dispatches = []\<rparr>)))))
     = [1000, 1020]"
  by (simp add: chatCompletion_def Let_def split: prod.splits)


subsection \<open>C2: translation of upstream failures\<close>

text \<open>
  Claim C2, as amended. Both translations map the status 401 to the authentication
  message, 429 to the rate-limit message and 500 to the server-error message. Every
  other failure takes the default branch, and its message carries the status and the
  upstream message when there is a non-empty one, the message of the HTTP error
  otherwise (\<^const>\<open>fimTranslate\<close> adds the reply body). A failure without a reply takes
  that branch too, with \<^verbatim>\<open>undefined\<close> for the status.
\<close>

theorem translate_status:
  "chatTranslate \<lparr>err_message = m, response = Some \<lparr>status = 401, error_message = um, data_json = d\<rparr>\<rparr>
     = Error ''Authentication failed. Please check your API key.''
   \<and> chatTranslate \<lparr>err_message = m, response = Some \<lparr>status = 429, error_message = um, data_json = d\<rparr>\<rparr>
     = Error ''Rate limit exceeded. Please try again later.''
   \<and> chatTranslate \<lparr>err_message = m, response = Some \<lparr>status = 500, error_message = um, data_json = d\<rparr>\<rparr>
     = Error ''Mistral API server error. Please try again later.''
   \<and> (s \<notin> {401, 429, 500} \<longrightarrow>
        chatTranslate \<lparr>err_message = m, response = Some \<lparr>status = s, error_message = um, data_json = d\<rparr>\<rparr>
          = Error (''Mistral API error ('' @ showNat s @ ''): '' @ (if truthy um then the um else m)))
   \<and> chatTranslate \<lparr>err_message = m, response = None\<rparr>
     = Error (''Mistral API error (undefined): '' @ m)
   \<and> fimTranslate \<lparr>err_message = m, response = Some \<lparr>status = 401, error_message = um, data_json = d\<rparr>\<rparr>
     = Error ''Authentication failed. Please check your API key.''
   \<and> fimTranslate \<lparr>err_message = m, response = Some \<lparr>status = 429, error_message = um, data_json = d\<rparr>\<rparr>
     = Error ''Rate limit exceeded. Please try again later.''
   \<and> fimTranslate \<lparr>err_message = m, response = Some \<lparr>status = 500, error_message = um, data_json = d\<rparr>\<rparr>
     = Error ''Mistral API server error. Please try again later.''
   \<and> (s \<notin> {401, 429, 500} \<longrightarrow>
        fimTranslate \<lparr>err_message = m, response = Some \<lparr>status = s, error_message = um, data_json = d\<rparr>\<rparr>
          = Error (''Mistral API error ('' @ showNat s @ ''): '' @ (if truthy um then the um else m)
              @ ''\<newline>Response: '' @ d))
   \<and> fimTranslate \<lparr>err_message = m, response = None\<rparr>
     = Error (''Mistral API error (undefined): '' @ m @ ''\<newline>Response: undefined'')"
  by (simp add: chatTranslate_def fimTranslate_def statusOf_def messageOf_def showStatus_def
      orElse_def Let_def)

theorem translate_status_witness:
  "(404::nat) \<notin> {401, 429, 500}
   \<and> chatTranslate \<lparr>err_message = ''Request failed with status code 404'',
        response = Some \<lparr>status = 404, error_message = Some ''Not Found'', data_json = ''{}''\<rparr>\<rparr>
       = Error ''Mistral API error (404): Not Found''
   \<and> fimTranslate \<lparr>err_message = ''Request failed with status code 404'',
        response = Some \<lparr>status = 404, error_message = None, data_json = ''{}''\<rparr>\<rparr>
       = Error ''Mistral API error (404): Request failed with status code 404\<newline>Response: {}''"
  using translate_status [of "''Request failed with status code 404''" "Some ''Not Found''" "''{}''" 404]
    translate_status [of "''Request failed with status code 404''" None "''{}''" 404]
  by (simp add: showNat_404)

text \<open>
  The claim as written fails: a timeout, with no reply received, is not translated to an
  error of its own. It yields the error of the default branch, the one a reply with the
  status 404 yields.
\<close>

theorem timeout_takes_default_branch:
  "chatTranslate \<lparr>err_message = ''timeout of 30000ms exceeded'', response = None\<rparr>
     = Error ''Mistral API error (undefined): timeout of 30000ms exceeded''
   \<and> chatTranslate \<lparr>err_message = ''Request failed with status code 404'',
        response = Some \<lparr>status = 404, error_message = Some ''timeout of 30000ms exceeded'',
          data_json = ''{}''\<rparr>\<rparr>
     = Error ''Mistral API error (404): timeout of 30000ms exceeded''"
  by (simp add: chatTranslate_def statusOf_def messageOf_def showStatus_def
      orElse_def Let_def showNat_404)


subsection \<open>C3: the status 401 at the startup check of the key\<close>

text \<open>
  Claim C3 says that a 401 reply to the startup probe yields the credential error of the
  startup check. \<^const>\<open>validateApiKey\<close> has that branch, for an error of the HTTP
  library, and it is never taken: \<^const>\<open>chatCompletion\<close> has already translated every
  such error. What \<^const>\<open>validateApiKey\<close> throws is what \<^const>\<open>chatCompletion\<close> threw,
  and for a 401 reply that is the authentication error of normal operation.
\<close>

theorem validateApiKey_401:
  "fst (validateApiKey up api w)
     = (case fst (chatCompletion up api [\<lparr>role = ''user'', content = ''test''\<rparr>]
                    (no_chat_options\<lparr>max_tokens := Some 1\<rparr>) w) of
          Inl e \<Rightarrow> Inl e | Inr c \<Rightarrow> Inr True)
   \<and> fst (validateApiKey (\<lambda>req. (lat, Rejected (AxiosError
            \<lparr>err_message = m, response = Some \<lparr>status = 401, error_message = um, data_json = d\<rparr>\<rparr>)))
          api w)
     = Inl (Error ''Authentication failed. Please check your API key.'')
   \<and> Error ''Authentication failed. Please check your API key.''
     \<noteq> Error ''Invalid API key. Please check your Codestral API key.''"
proof -
  have never: "fst (chatCompletion up api msgs options w) \<noteq> Inl (AxiosError e)"
    for up api msgs options w e
  proof -
    have c: "chatCatch x \<noteq> AxiosError e" for x
      by (cases x) (auto simp: chatTranslate_def Let_def)
    show ?thesis
      by (auto simp: chatCompletion_def Let_def c split: prod.splits post_outcome.splits option.splits)
  qed
  have 1: "fst (validateApiKey up api w)
     = (case fst (chatCompletion up api [\<lparr>role = ''user'', content = ''test''\<rparr>]
                    (no_chat_options\<lparr>max_tokens := Some 1\<rparr>) w) of
          Inl e \<Rightarrow> Inl e | Inr c \<Rightarrow> Inr True)"
  proof (cases "chatCompletion up api [\<lparr>role = ''user'', content = ''test''\<rparr>]
                    (no_chat_options\<lparr>max_tokens := Some 1\<rparr>) w")
    case (Pair r w')
    with never [of up api _ _ w] have "\<And>e. r \<noteq> Inl (AxiosError e)"
      by (metis fst_conv)
    with Pair show ?thesis
      by (auto simp: validateApiKey_def split: sum.splits js_error.splits)
  qed
  have 2: "fst (validateApiKey (\<lambda>req. (lat, Rejected (AxiosError
            \<lparr>err_message = m, response = Some \<lparr>status = 401, error_message = um, data_json = d\<rparr>\<rparr>)))
          api w)
     = Inl (Error ''Authentication failed. Please check your API key.'')"
    by (simp add: validateApiKey_def chatCompletion_def chatTranslate_def statusOf_def Let_def)
  show ?thesis using 1 2 by simp
qed


subsection \<open>C4: the response validator and the empty list of choices\<close>

text \<open>
  Claim C4 says that a reply with a missing or mistyped field fails validation and that
  a reply whose choices are the empty list is accepted and then surfaces to the caller
  as the error for a completion without choices. The validator does its part, and on the
  path of the code tool \<^const>\<open>formatResponse\<close> raises that error. The handler of the
  \<^verbatim>\<open>chat\<close> tool has no such guard: on the same accepted reply it reads the first
  choice of the empty list, and what surfaces is the \<^const>\<open>TypeError\<close> of the engine.
\<close>

theorem chatTool_empty_choices:
  "CompletionResponseSchema_parse (JObj (example_body []
       [(''prompt_tokens'', JNum 3), (''completion_tokens'', JNum 0),
        (''total_tokens'', JNum 3)]))
     = Some \<lparr>completion_id = ''cmpl-1'', completion_object = ''chat.completion'',
         created = 1700000000, completion_model = ''codestral-latest'', choices = [],
         usage = \<lparr>prompt_tokens = 3, completion_tokens = 0, total_tokens = 3\<rparr>\<rparr>
   \<and> fst (chatTool
        (\<lambda>req. (lat, Resolved (JObj (example_body []
           [(''prompt_tokens'', JNum 3), (''completion_tokens'', JNum 0),
            (''total_tokens'', JNum 3)]))))
        api msgs params w) = Inl TypeError
   \<and> formatResponse
        \<lparr>completion_id = ''cmpl-1'', completion_object = ''chat.completion'',
         created = 1700000000, completion_model = ''codestral-latest'', choices = [],
         usage = \<lparr>prompt_tokens = 3, completion_tokens = 0, total_tokens = 3\<rparr>\<rparr>
     = Inl (Error ''Invalid completion response'')
   \<and> TypeError \<noteq> Error ''Invalid completion response''"
  by (simp add: chatTool_def chatCompletion_def Let_def parse_example_no_choices
      formatResponse_def)


subsection \<open>C5: the endpoint router on the six known identifiers\<close>

text \<open>
  Claim C5. The router is a total function; each of the two code-specialised identifiers
  resolves to the code-specialised base, each of the four general-purpose identifiers to
  the general-purpose base, and the two bases differ.
\<close>

theorem getApiBase_known_models:
  "getApiBase CODESTRAL = CODESTRAL_API_BASE
   \<and> getApiBase CODESTRAL_MAMBA = CODESTRAL_API_BASE
   \<and> getApiBase MISTRAL_LARGE = MISTRAL_API_BASE
   \<and> getApiBase MISTRAL_SMALL = MISTRAL_API_BASE
   \<and> getApiBase MINISTRAL_8B = MISTRAL_API_BASE
   \<and> getApiBase MINISTRAL_3B = MISTRAL_API_BASE
   \<and> CODESTRAL_API_BASE \<noteq> MISTRAL_API_BASE"
  by (simp add: getApiBase_def CODESTRAL_def CODESTRAL_MAMBA_def MISTRAL_LARGE_def
      MISTRAL_SMALL_def MINISTRAL_8B_def MINISTRAL_3B_def CODESTRAL_API_BASE_def
      MISTRAL_API_BASE_def)


subsection \<open>C6: the defaults of the sampling parameters\<close>



subsection \<open>C7: the messages of the prompt builder\<close>

text \<open>
  Claim C7, as amended. The builder returns one system message, whose text depends on the
  task only, and one user message: the code fenced with the language tag (the empty tag
  when the language is left out or empty), followed by a second fenced block with the
  suffix if and only if the task is fill-in-the-middle and the suffix is present and not
  the empty string. The result is a function of the four arguments.
\<close>

theorem createPrompt_messages:
  "createPrompt code language task sfx =
     [\<lparr>role = ''system'', content = systemPrompts task\<rparr>,
      \<lparr>role = ''user'',
       content =
         ''Here is the'' @ (if truthy language then '' '' @ the language else [])
           @ '' code:\<newline>\<newline>'' @ fenced (orElse language []) code
           @ (if task = Fim \<and> truthy sfx
              then ''\<newline>\<newline>The code should end with:\<newline>\<newline>''
                @ fenced (orElse language []) (the sfx)
              else [])\<rparr>]"
  by (simp add: createPrompt_def fenced_def Let_def)

text \<open>
  The claim as written fails for a suffix that is present and empty: the task is
  fill-in-the-middle, and the user message ends with the block of the code.
\<close>

theorem createPrompt_empty_suffix:
  "createPrompt ''x'' (Some ''python'') Fim (Some []) =
     [\<lparr>role = ''system'', content = systemPrompts Fim\<rparr>,
      \<lparr>role = ''user'',
       content = ''Here is the python code:\<newline>\<newline>'' @ fenced ''python'' ''x''\<rparr>]
   \<and> \<not> sublist (fenced ''python'' [])
         (content (createPrompt ''x'' (Some ''python'') Fim (Some []) ! 1))"
  by (simp add: createPrompt_def fenced_def Let_def orElse_def sublist_code)


subsection \<open>C8: the code extractor\<close>

text \<open>
  Claim C8, as amended. The blocks the extractor finds are those whose opening fence is
  three backticks, a tag of word characters (letters, digits and the underscore), which
  may be empty, and a line break. Every text has its list of these blocks, in document
  order. When the list is empty the extractor returns the text as it is; otherwise it
  returns the trimmed bodies of the blocks, joined by a blank line, and nothing of the
  prose around them. The two examples of the specification evaluate as it says.
\<close>

theorem extractCode_fenced_blocks:
  "(\<exists>bodies. fenced_blocks text bodies)
   \<and> (\<forall>bodies. fenced_blocks text bodies \<longrightarrow>
         extractCode text
           = (if bodies = [] then text else join ''\<newline>\<newline>'' (map trim bodies)))
   \<and> extractCode ''prefix ```js\<newline>code1\<newline>``` middle ```\<newline>code2\<newline>``` suffix''
       = ''code1\<newline>\<newline>code2''
   \<and> extractCode ''plain text'' = ''plain text''"
proof (intro conjI allI impI)
  show "\<exists>bodies. fenced_blocks text bodies"
    using fenced_blocks_matchAll by blast
next
  fix bodies assume "fenced_blocks text bodies"
  then have "matchAll text = bodies" by (rule fenced_blocks_unique)
  then show "extractCode text
           = (if bodies = [] then text else join ''\<newline>\<newline>'' (map trim bodies))"
    by (auto simp: extractCode_def Let_def)
next
  show "extractCode ''prefix ```js\<newline>code1\<newline>``` middle ```\<newline>code2\<newline>``` suffix''
       = ''code1\<newline>\<newline>code2''"
    using extract_example by (simp add: example_reply_def)
next
  show "extractCode ''plain text'' = ''plain text''"
    by (rule extract_plain)
qed

theorem extractCode_fenced_blocks_witness:
  "fenced_blocks example_reply [''code1\<newline>'', ''code2\<newline>'']
   \<and> extractCode example_reply = join ''\<newline>\<newline>'' (map trim [''code1\<newline>'', ''code2\<newline>''])"
proof -
  have h: "fenced_blocks example_reply [''code1\<newline>'', ''code2\<newline>'']"
    using fenced_blocks_matchAll [of example_reply] by (simp add: matchAll_example)
  with extractCode_fenced_blocks [of example_reply] show ?thesis by auto
qed


text \<open>
  The claim as written fails for a block whose language tag has a character outside the
  word characters: the fence is not recognised, no block is found, and the text comes
  back with its fences, not the body of the block.
\<close>

theorem extractCode_tag_outside_word_characters:
  "extractCode ''```c++\<newline>int x;\<newline>```'' = ''```c++\<newline>int x;\<newline>```''
   \<and> extractCode ''```c++\<newline>int x;\<newline>```'' \<noteq> ''int x;''"
  by (simp add: extractCode_def matchAt_def FENCE_def isWordChar_def)


subsection \<open>C9: the extractor on its own output\<close>

text \<open>
  Claim C9. Where the result of the extraction contains no fence, the extraction of that
  result returns it unchanged; and so it does where the result has no fenced block,
  whatever backticks it contains.
\<close>

theorem extractCode_idempotent:
  "(\<not> sublist FENCE (extractCode text) \<longrightarrow>
      extractCode (extractCode text) = extractCode text)
   \<and> (fenced_blocks (extractCode text) [] \<longrightarrow>
      extractCode (extractCode text) = extractCode text)"
proof (intro conjI impI)
  assume "\<not> sublist FENCE (extractCode text)"
  then have "matchAll (extractCode text) = []" by (rule no_fence_matchAll)
  then show "extractCode (extractCode text) = extractCode text"
    by (simp add: extractCode_def [of "extractCode text"])
next
  assume "fenced_blocks (extractCode text) []"
  then have "matchAll (extractCode text) = []" by (rule fenced_blocks_unique)
  then show "extractCode (extractCode text) = extractCode text"
    by (simp add: extractCode_def [of "extractCode text"])
qed

theorem extractCode_idempotent_witness:
  "\<not> sublist FENCE (extractCode example_reply)
   \<and> fenced_blocks (extractCode example_reply) []
   \<and> extractCode (extractCode example_reply) = extractCode example_reply
   \<and> extractCode example_reply = ''code1\<newline>\<newline>code2''"
proof -
  have h: "\<not> sublist FENCE (extractCode example_reply)"
    by (simp add: extract_example FENCE_def sublist_code)
  then have "matchAll (extractCode example_reply) = []" by (rule no_fence_matchAll)
  with fenced_blocks_matchAll [of "extractCode example_reply"]
  have b: "fenced_blocks (extractCode example_reply) []" by simp
  from extractCode_idempotent [of example_reply] h b show ?thesis
    by (simp add: extract_example)
qed


subsection \<open>C10: the process-wide client\<close>

text \<open>
  Claim C10, as amended. While no client is kept, an invocation with a key that is not
  blank builds the client, with the trimmed key as its key and in both authorisation
  headers, and keeps it; an invocation with a blank key, empty or all white space,
  throws and keeps none. Once a client is kept, every invocation ignores its key and
  returns that client, and it stays the one kept.
\<close>

theorem getMistralAPI_singleton:
  "(trim key1 \<noteq> [] \<longrightarrow>
      (let built =
             \<lparr>apiKey = trim key1,
              codestralClient =
                \<lparr>baseURL = CODESTRAL_API_BASE, authorization = ''Bearer '' @ trim key1,
                 timeout = 30000\<rparr>,
              mistralClient =
                \<lparr>baseURL = MISTRAL_API_BASE, authorization = ''Bearer '' @ trim key1,
                 timeout = 30000\<rparr>,
              lastRequestTime = 0\<rparr>
       in getMistralAPI key1 None = (Inr built, Some built)
          \<and> getMistralAPI key2 (snd (getMistralAPI key1 None)) = (Inr built, Some built)))
   \<and> (trim key1 = [] \<longrightarrow>
      getMistralAPI key1 None = (Inl (Error ''API key cannot be empty''), None))
   \<and> getMistralAPI key2 (Some api) = (Inr api, Some api)"
proof (intro conjI impI)
  assume t: "trim key1 \<noteq> []"
  then have "key1 \<noteq> []" using trim_Nil by auto
  with t show
    "let built =
             \<lparr>apiKey = trim key1,
              codestralClient =
                \<lparr>baseURL = CODESTRAL_API_BASE, authorization = ''Bearer '' @ trim key1,
                 timeout = 30000\<rparr>,
              mistralClient =
                \<lparr>baseURL = MISTRAL_API_BASE, authorization = ''Bearer '' @ trim key1,
                 timeout = 30000\<rparr>,
              lastRequestTime = 0\<rparr>
       in getMistralAPI key1 None = (Inr built, Some built)
          \<and> getMistralAPI key2 (snd (getMistralAPI key1 None)) = (Inr built, Some built)"
    by (simp add: getMistralAPI_def newMistralAPI_def Let_def)
next
  assume "trim key1 = []"
  then show "getMistralAPI key1 None = (Inl (Error ''API key cannot be empty''), None)"
    by (simp add: getMistralAPI_def newMistralAPI_def)
next
  show "getMistralAPI key2 (Some api) = (Inr api, Some api)"
    by (simp add: getMistralAPI_def)
qed

theorem getMistralAPI_singleton_witness:
  "trim ''key1'' \<noteq> []
   \<and> getMistralAPI ''key1'' None = (Inr example_api, Some example_api)
   \<and> getMistralAPI ''key2'' (snd (getMistralAPI ''key1'' None))
       = (Inr example_api, Some example_api)
   \<and> apiKey example_api = ''key1''
   \<and> authorization (codestralClient example_api) = ''Bearer key1''
   \<and> authorization (mistralClient example_api) = ''Bearer key1''
   \<and> trim '' \<newline> '' = []
   \<and> getMistralAPI '' \<newline> '' None = (Inl (Error ''API key cannot be empty''), None)"
proof -
  have b: "trim '' \<newline> '' = []"
    by (simp add: trim_def whiteSpace_def stripStart.simps)
  have n: "trim ''key1'' \<noteq> []"
    by (simp add: trim_key1)
  from getMistralAPI_singleton [of "''key1''" "''key2''" example_api]
    getMistralAPI_singleton [of "'' \<newline> ''" "''key2''" example_api] b n
  show ?thesis
    by (simp add: trim_key1 example_api_def Let_def)
qed

text \<open>
  The claim as written fails when the first invocation has a blank key: the constructor
  throws, no client is kept, and the second invocation builds the client from its own
  key.
\<close>

theorem getMistralAPI_after_blank_key:
  "getMistralAPI [] None = (Inl (Error ''API key cannot be empty''), None)
   \<and> getMistralAPI ''key1'' (snd (getMistralAPI [] None)) = (Inr example_api, Some example_api)
   \<and> apiKey example_api = ''key1''"
  by (simp add: getMistralAPI_def newMistralAPI_def example_api_def trim_key1)

end
